theory Spec2Isabelle
  imports Complex_Main
begin

section \<open>Data model of the grid bot (src/main.py, class GridBot)\<close>

text \<open>
  Prices, quantities and USDT amounts are Python floats in the source. They are
  modelled as real numbers: comparisons are exact in both, arithmetic is the
  ideal arithmetic the float operations approximate. The trade counter is a
  Python int.
\<close>

text \<open>
  The side of a position is the string "Buy" or "Sell" in the source; every test
  there is \<open>side == "Buy"\<close> with the other case as the else branch.
\<close>

datatype side = Buy | Sell

definition side_str :: "side \<Rightarrow> string" where
  "side_str sd = (case sd of Buy \<Rightarrow> ''Buy'' | Sell \<Rightarrow> ''Sell'')"

text \<open>
  The position dictionary \<open>{"side", "size", "entry_price"}\<close>. The exchange's
  answer also carries \<open>unrealized_pnl\<close>, which the bot never reads.
\<close>

record position =
  pos_side :: side
  pos_size :: real
  entry_price :: real

text \<open>Exceptions that the modelled arithmetic can raise.\<close>

datatype py_error = ZeroDivisionError | DecimalException

text \<open>Lines the bot prints, kept as values.\<close>

datatype msg =
    SizeCalcFailed
  | OrderFailed string
  | ReversalPriceFailed
  | ReversalFailed string
  | TradeExecutionError py_error
  | Opened side real real real
  | Reversed side real real real
  | LossRecovery real real
  | TakeProfit real
  | StopLoss real
  | ExistingPosition side real
  | StateLoaded real int
  | StateLoadError
  | StateSaveError
  | TradeLogError
  | DatabaseInitError

definition is_failure :: "msg \<Rightarrow> bool" where
  "is_failure m = (case m of
       SizeCalcFailed \<Rightarrow> True
     | OrderFailed e \<Rightarrow> True
     | ReversalPriceFailed \<Rightarrow> True
     | ReversalFailed e \<Rightarrow> True
     | TradeExecutionError e \<Rightarrow> True
     | _ \<Rightarrow> False)"

text \<open>
  The attributes of a \<open>GridBot\<close> instance. \<open>conn\<close> is whether \<open>self.conn\<close> holds
  a connection (\<open>init_database\<close> sets it to \<open>None\<close> when it fails). \<open>qty_step\<close>
  and \<open>min_qty\<close> come from the exchange's instrument description.
\<close>

record bot =
  leverage :: real
  base_usdt :: real
  grid_levels :: "real list"
  sl_roe :: real
  tp_roe :: real
  qty_step :: real
  min_qty :: real
  current_position :: "position option"
  current_grid_level :: "real option"
  last_price :: "real option"
  last_grid_zone :: "nat option"
  accumulated_losses :: real
  daily_pnl :: real
  total_trades :: int
  current_order_id :: "string option"
  conn :: bool

text \<open>
  What lives outside the instance: the SQLite file (table \<open>bot_state\<close> as the
  list of its rows with their ids, table \<open>trades\<close>), the orders handed to the
  exchange client, and the printed lines. \<open>sqlite_ok\<close> is False when the sqlite3
  calls raise; every such call of the source sits in a \<open>try\<close> whose handler
  prints and goes on. All columns of \<open>bot_state\<close> are nullable.
\<close>

record bot_state_row =
  col_accumulated_losses :: "real option"
  col_daily_pnl :: "real option"
  col_total_trades :: "int option"
  col_current_grid_level :: "real option"

record trade =
  trade_side :: string
  trade_grid_level :: real
  trade_usdt_amount :: real
  logged_pnl :: real
  accumulated_losses_after :: real

record order =
  order_side :: side
  order_qty :: real
  order_stop_loss :: real
  order_take_profit :: real

record world =
  sqlite_ok :: bool
  bot_state :: "(int \<times> bot_state_row) list"
  trades :: "trade list"
  orders :: "order list"
  console :: "msg list"

text \<open>
  The answer of \<open>client.place_order\<close> as the bot reads it: a dictionary with the
  key "error" (the handler of \<open>place_order\<close> builds it from the exception), or one
  without, from which the order id is taken when present.
\<close>

datatype order_result = OrderError string | OrderOk "string option"

text \<open>
  The answers of the exchange during one event: \<open>get_position_info\<close>, the first
  and the second call of \<open>get_price\<close>, and \<open>place_order\<close>. \<open>None\<close> is what the
  source's wrappers return on any failure.
\<close>

record gateway =
  position_resp :: "position option"
  price_resp :: "real option"
  price_resp2 :: "real option"
  order_resp :: order_result

definition say :: "msg \<Rightarrow> world \<Rightarrow> world" where
  "say m w = w\<lparr>console := console w @ [m]\<rparr>"

section \<open>P&L calculator\<close>

definition calculate_exact_pnl_with_buffer :: "real \<Rightarrow> real \<Rightarrow> real \<Rightarrow> side \<Rightarrow> real" where
  "calculate_exact_pnl_with_buffer entry exit sz sd =
     (let raw_pnl = (if sd = Buy then (exit - entry) * sz else (entry - exit) * sz);
          entry_fee = (sz * entry) * 0.00055;
          exit_fee = (sz * exit) * 0.00055;
          total_fees = entry_fee + exit_fee;
          pnl_after_fees = raw_pnl - total_fees
      in if pnl_after_fees < 0
         then pnl_after_fees - \<bar>pnl_after_fees\<bar> * 0.03
         else pnl_after_fees)"

section \<open>Grid zone tracker\<close>

text \<open>
  The loop of \<open>get_grid_zone\<close> over \<open>enumerate(self.grid_levels)\<close>: \<open>Some i\<close> is
  the early \<open>return i\<close>, \<open>None\<close> is the loop running to its end.
\<close>

fun zone_loop :: "nat \<Rightarrow> real list \<Rightarrow> real \<Rightarrow> nat option" where
  "zone_loop i [] price = None"
| "zone_loop i (level # rest) price =
     (if price \<le> level then Some i else zone_loop (Suc i) rest price)"

definition get_grid_zone :: "real list \<Rightarrow> real \<Rightarrow> nat" where
  "get_grid_zone levels price =
     (case zone_loop 0 levels price of Some i \<Rightarrow> i | None \<Rightarrow> length levels)"

text \<open>
  \<open>check_grid_crossing\<close>. \<open>not self.last_price\<close> holds for \<open>None\<close> and for 0.0.
  The result is the returned level and the instance after the call.
\<close>

definition track :: "bot \<Rightarrow> real \<Rightarrow> nat \<Rightarrow> bot" where
  "track b current_price z = b\<lparr>last_price := Some current_price, last_grid_zone := Some z\<rparr>"

definition crossed_levels :: "real list \<Rightarrow> real \<Rightarrow> real \<Rightarrow> real list" where
  "crossed_levels levels lp current_price =
     (if current_price > lp
      then filter (\<lambda>level. lp < level \<and> level \<le> current_price) levels
      else filter (\<lambda>level. current_price \<le> level \<and> level < lp) levels)"

definition check_grid_crossing :: "bot \<Rightarrow> real \<Rightarrow> real option \<times> bot" where
  "check_grid_crossing b current_price =
     (let current_zone = get_grid_zone (grid_levels b) current_price in
      case last_price b of
        None \<Rightarrow> (None, track b current_price current_zone)
      | Some lp \<Rightarrow>
          if lp = 0 then (None, track b current_price current_zone)
          else if last_grid_zone b \<noteq> None \<and> Some current_zone \<noteq> last_grid_zone b
          then (case crossed_levels (grid_levels b) lp current_price of
                  level # rest \<Rightarrow> (Some level, track b current_price current_zone)
                | [] \<Rightarrow> (None, track b current_price current_zone))
          else (None, track b current_price current_zone))"

text \<open>
  The instance as \<open>__init__\<close> leaves its runtime fields before the database is
  read; the configuration's grid levels are sorted there.
\<close>

definition new_bot :: "real \<Rightarrow> real \<Rightarrow> real list \<Rightarrow> real \<Rightarrow> real \<Rightarrow> bot" where
  "new_bot lev usdt levels sl tp =
     \<lparr>leverage = lev, base_usdt = usdt, grid_levels = sort levels,
      sl_roe = sl, tp_roe = tp, qty_step = 0, min_qty = 0,
      current_position = None, current_grid_level = None,
      last_price = None, last_grid_zone = None,
      accumulated_losses = 0, daily_pnl = 0, total_trades = 0,
      current_order_id = None, conn = False\<rparr>"

section \<open>Ledger store\<close>

text \<open>
  \<open>init_database\<close>: on any exception the connection is dropped. The tables are
  created when missing; the state row with id 1 is inserted with the column
  defaults when \<open>bot_state\<close> has no row at all.
\<close>

definition default_row :: bot_state_row where
  "default_row = \<lparr>col_accumulated_losses = Some 0, col_daily_pnl = Some 0,
                   col_total_trades = Some 0, col_current_grid_level = None\<rparr>"

definition init_database :: "bot \<Rightarrow> world \<Rightarrow> bot \<times> world" where
  "init_database b w =
     (if \<not> sqlite_ok w then (b\<lparr>conn := False\<rparr>, say DatabaseInitError w)
      else (b\<lparr>conn := True\<rparr>,
            if length (bot_state w) = 0
            then w\<lparr>bot_state := bot_state w @ [(1, default_row)]\<rparr>
            else w))"

text \<open>
  \<open>load_previous_state\<close>: \<open>SELECT ... WHERE id = 1\<close> and \<open>fetchone()\<close>;
  \<open>x or 0.0\<close> replaces NULL (and zero) by zero.
\<close>

definition or_zero :: "'a::zero option \<Rightarrow> 'a" where
  "or_zero v = (case v of None \<Rightarrow> 0 | Some x \<Rightarrow> if x = 0 then 0 else x)"

definition load_previous_state :: "bot \<Rightarrow> world \<Rightarrow> bot \<times> world" where
  "load_previous_state b w =
     (if \<not> conn b then (b, w)
      else if \<not> sqlite_ok w then (b, say StateLoadError w)
      else (case map_of (bot_state w) 1 of
              None \<Rightarrow> (b, w)
            | Some r \<Rightarrow>
                (let b' = b\<lparr>accumulated_losses := or_zero (col_accumulated_losses r),
                            daily_pnl := or_zero (col_daily_pnl r),
                            total_trades := or_zero (col_total_trades r),
                            current_grid_level := col_current_grid_level r\<rparr>
                 in (b', if accumulated_losses b' > 0 \<or> total_trades b' > 0
                         then say (StateLoaded (accumulated_losses b') (total_trades b')) w
                         else w))))"

text \<open>\<open>save_state\<close>: \<open>UPDATE bot_state SET ... WHERE id = 1\<close>.\<close>

definition save_state :: "bot \<Rightarrow> world \<Rightarrow> world" where
  "save_state b w =
     (if \<not> conn b then w
      else if \<not> sqlite_ok w then say StateSaveError w
      else w\<lparr>bot_state :=
             map (\<lambda>(i, r). if i = 1
                    then (i, \<lparr>col_accumulated_losses = Some (accumulated_losses b),
                              col_daily_pnl = Some (daily_pnl b),
                              col_total_trades = Some (total_trades b),
                              col_current_grid_level = current_grid_level b\<rparr>)
                    else (i, r))
                 (bot_state w)\<rparr>)"

text \<open>\<open>log_trade\<close>: one row appended to \<open>trades\<close> (the timestamp column is left out).\<close>

definition log_trade :: "bot \<Rightarrow> world \<Rightarrow> string \<Rightarrow> real \<Rightarrow> real \<Rightarrow> real \<Rightarrow> world" where
  "log_trade b w sd grid_level usdt_amount pnl =
     (if \<not> conn b then w
      else if \<not> sqlite_ok w then say TradeLogError w
      else w\<lparr>trades := trades w @
               [\<lparr>trade_side = sd, trade_grid_level = grid_level,
                 trade_usdt_amount = usdt_amount, logged_pnl = pnl,
                 accumulated_losses_after = accumulated_losses b\<rparr>]\<rparr>)"

section \<open>Loss-recovery sizing\<close>

definition update_pnl_tracking :: "bot \<Rightarrow> world \<Rightarrow> real \<Rightarrow> bot \<times> world" where
  "update_pnl_tracking b w trade_pnl =
     (let b1 = b\<lparr>daily_pnl := daily_pnl b + trade_pnl, total_trades := total_trades b + 1\<rparr>;
          (b2, w2) =
            (if trade_pnl < 0
             then (b1\<lparr>accumulated_losses := accumulated_losses b1 + \<bar>trade_pnl\<bar>\<rparr>, w)
             else if accumulated_losses b1 > 0
             then (let recovered = min (accumulated_losses b1) trade_pnl;
                       b' = b1\<lparr>accumulated_losses := max 0 (accumulated_losses b1 - trade_pnl)\<rparr>
                   in (b', if recovered > 0
                           then say (LossRecovery recovered (accumulated_losses b')) w
                           else w))
             else (b1, w))
      in (b2, save_state b2 w2))"

definition calculate_position_size_with_recovery :: "bot \<Rightarrow> real" where
  "calculate_position_size_with_recovery b = base_usdt b + accumulated_losses b"

text \<open>
  \<open>round_down\<close>: \<open>Decimal // Decimal\<close> takes the integer part of the quotient
  (towards zero) and raises on a zero step; the product with the step already has
  the step's exponent, so \<open>quantize\<close> leaves it as it is. The quotient here is the
  exact one. The source takes it of \<open>Decimal(str(value))\<close> under a context of 18
  digits: a quotient of more than 18 digits raises InvalidOperation there, where
  this definition returns a value.
\<close>

definition truncate_towards_zero :: "real \<Rightarrow> int" where
  "truncate_towards_zero x = (if 0 \<le> x then \<lfloor>x\<rfloor> else \<lceil>x\<rceil>)"

definition round_down :: "real \<Rightarrow> real \<Rightarrow> py_error + real" where
  "round_down v step =
     (if step = 0 then Inl DecimalException
      else Inr (of_int (truncate_towards_zero (v / step)) * step))"

text \<open>
  \<open>calculate_position_size\<close>, given the answer of its \<open>get_price\<close> call;
  \<open>not price\<close> holds for \<open>None\<close> and for 0.0. The raw quantity is the exact
  quotient; the float quotient of the source can lie just below a multiple of the
  step and then rounds down one step lower.
\<close>

definition calculate_position_size :: "bot \<Rightarrow> real option \<Rightarrow> real \<Rightarrow> py_error + real option" where
  "calculate_position_size b price_answer usdt_amount =
     (case price_answer of
        None \<Rightarrow> Inr None
      | Some price \<Rightarrow>
          if price = 0 then Inr None
          else (case round_down ((usdt_amount * leverage b) / price) (qty_step b) of
                  Inl e \<Rightarrow> Inl e
                | Inr q \<Rightarrow> Inr (Some (if q < min_qty b then min_qty b else q))))"

section \<open>Position state machine\<close>

text \<open>
  A call either returns or raises; both leave an instance and a world behind,
  since fields assigned before the \<open>raise\<close> stay assigned.
\<close>

datatype 'a outcome = Returned 'a | Raised py_error 'a

definition sl_tp :: "side \<Rightarrow> real \<Rightarrow> real \<Rightarrow> real \<Rightarrow> real \<Rightarrow> real \<times> real" where
  "sl_tp sd price sl tp lev =
     (if sd = Buy
      then (price * (1 - sl / 100 / lev), price * (1 + tp / 100 / lev))
      else (price * (1 + sl / 100 / lev), price * (1 - tp / 100 / lev)))"

text \<open>
  \<open>open_grid_position\<close>. \<open>not qty\<close> holds for \<open>None\<close> and for 0.0. The division by
  the leverage raises when it is zero. The order handed to \<open>place_order\<close> is
  recorded with the prices before their rounding to two decimals.
\<close>

definition open_grid_position :: "bot \<Rightarrow> world \<Rightarrow> gateway \<Rightarrow> real \<Rightarrow> real \<Rightarrow> (bot \<times> world) outcome" where
  "open_grid_position b w g price grid_level =
     (let sd = (if price > grid_level then Buy else Sell);
          usdt_amount = calculate_position_size_with_recovery b
      in case calculate_position_size b (price_resp g) usdt_amount of
           Inl e \<Rightarrow> Raised e (b, w)
         | Inr None \<Rightarrow> Returned (b, say SizeCalcFailed w)
         | Inr (Some qty) \<Rightarrow>
             if qty = 0 then Returned (b, say SizeCalcFailed w)
             else if leverage b = 0 then Raised ZeroDivisionError (b, w)
             else (let (sl_price, tp_price) = sl_tp sd price (sl_roe b) (tp_roe b) (leverage b);
                       w1 = w\<lparr>orders := orders w @
                              [\<lparr>order_side = sd, order_qty = qty,
                                order_stop_loss = sl_price, order_take_profit = tp_price\<rparr>]\<rparr>
                   in case order_resp g of
                        OrderOk oid \<Rightarrow>
                          (let b1 = b\<lparr>current_order_id := oid,
                                      current_position := Some \<lparr>pos_side = sd, pos_size = qty, entry_price = price\<rparr>,
                                      current_grid_level := Some grid_level\<rparr>
                           in Returned (b1, log_trade b1 (say (Opened sd grid_level usdt_amount price) w1)
                                              (side_str sd) grid_level usdt_amount 0))
                      | OrderError e \<Rightarrow> Returned (b, say (OrderFailed e) w1)))"

text \<open>
  \<open>reverse_position\<close>, given the answer of its own \<open>get_price\<close> call (the second of
  the event). The order is twice the current quantity. When the call raises there
  is no answer, and the first component of the result is not read.
\<close>

definition opposite :: "side \<Rightarrow> side" where
  "opposite sd = (if sd = Buy then Sell else Buy)"

definition reverse_position :: "world \<Rightarrow> gateway \<Rightarrow> real \<Rightarrow> side \<Rightarrow> real \<Rightarrow> real \<Rightarrow> real \<Rightarrow> (order_result \<times> world) outcome" where
  "reverse_position w g current_qty current_side sl tp lev =
     (let reverse_side = opposite current_side;
          reverse_qty = current_qty * 2
      in case price_resp2 g of
           None \<Rightarrow> Returned (OrderError ''Failed to get current price'', w)
         | Some current_price \<Rightarrow>
             if current_price = 0 then Returned (OrderError ''Failed to get current price'', w)
             else if lev = 0 then Raised ZeroDivisionError (OrderError [], w)
             else (let (sl_price, tp_price) = sl_tp reverse_side current_price sl tp lev
                   in Returned (order_resp g,
                        w\<lparr>orders := orders w @
                           [\<lparr>order_side = reverse_side, order_qty = reverse_qty,
                             order_stop_loss = sl_price, order_take_profit = tp_price\<rparr>]\<rparr>)))"

text \<open>\<open>execute_reversal\<close>, for the position the exchange reports.\<close>

definition execute_reversal :: "bot \<Rightarrow> world \<Rightarrow> gateway \<Rightarrow> position \<Rightarrow> real \<Rightarrow> (bot \<times> world) outcome" where
  "execute_reversal b w g current_pos grid_level =
     (case price_resp g of
        None \<Rightarrow> Returned (b, say ReversalPriceFailed w)
      | Some current_price \<Rightarrow>
          if current_price = 0 then Returned (b, say ReversalPriceFailed w)
          else
            (let calculated_pnl = calculate_exact_pnl_with_buffer (entry_price current_pos)
                                    current_price (pos_size current_pos) (pos_side current_pos);
                 (b1, w1) = update_pnl_tracking b w calculated_pnl;
                 usdt_amount = calculate_position_size_with_recovery b1;
                 actual_position_size = pos_size current_pos
             in case reverse_position w1 g actual_position_size (pos_side current_pos)
                       (sl_roe b1) (tp_roe b1) (leverage b1) of
                  Raised e (r, w2) \<Rightarrow> Raised e (b1, w2)
                | Returned (OrderOk oid, w2) \<Rightarrow>
                    (let new_side = opposite (pos_side current_pos);
                         b2 = b1\<lparr>current_order_id := oid,
                                 current_position := Some \<lparr>pos_side = new_side,
                                   pos_size = actual_position_size * 2, entry_price = current_price\<rparr>\<rparr>
                     in Returned (b2, log_trade b2 (say (Reversed new_side grid_level usdt_amount calculated_pnl) w2)
                                        (side_str new_side) grid_level usdt_amount calculated_pnl))
                | Returned (OrderError e, w2) \<Rightarrow> Returned (b1, say (ReversalFailed e) w2)))"

text \<open>
  The lines of \<open>execute_reversal\<close> that follow the return of \<open>reverse_position\<close>,
  on the instance as it is at that moment. When nothing else ran in between, that
  is the instance \<open>update_pnl_tracking\<close> left.
\<close>

definition reversal_completion :: "bot \<Rightarrow> world \<Rightarrow> order_result \<Rightarrow> position \<Rightarrow> real \<Rightarrow> real \<Rightarrow> real \<Rightarrow> real
                                     \<Rightarrow> bot \<times> world" where
  "reversal_completion b w result current_pos current_price grid_level usdt_amount calculated_pnl =
     (case result of
        OrderOk oid \<Rightarrow>
          (let actual_position_size = pos_size current_pos;
               new_side = opposite (pos_side current_pos);
               b2 = b\<lparr>current_order_id := oid,
                      current_position := Some \<lparr>pos_side = new_side,
                        pos_size = actual_position_size * 2, entry_price = current_price\<rparr>\<rparr>
           in (b2, log_trade b2 (say (Reversed new_side grid_level usdt_amount calculated_pnl) w)
                     (side_str new_side) grid_level usdt_amount calculated_pnl))
      | OrderError e \<Rightarrow> (b, say (ReversalFailed e) w))"

definition should_reverse_position :: "bot \<Rightarrow> real \<Rightarrow> bool" where
  "should_reverse_position b grid_level = (Some grid_level = current_grid_level b)"

text \<open>\<open>execute_grid_trade\<close>: its handler prints whatever was raised.\<close>

definition caught :: "(bot \<times> world) outcome \<Rightarrow> bot \<times> world" where
  "caught r = (case r of
       Returned bw \<Rightarrow> bw
     | Raised e (b, w) \<Rightarrow> (b, say (TradeExecutionError e) w))"

definition execute_grid_trade :: "bot \<Rightarrow> world \<Rightarrow> gateway \<Rightarrow> real \<Rightarrow> real \<Rightarrow> bot \<times> world" where
  "execute_grid_trade b w g price grid_level =
     caught (case position_resp g of
        Some current_pos \<Rightarrow>
          if should_reverse_position b grid_level
          then execute_reversal b w g current_pos grid_level
          else Returned (b, w)
      | None \<Rightarrow> open_grid_position b w g price grid_level)"

text \<open>
  \<open>handle_ticker\<close>, for a tick that carries a price: \<open>not price\<close> and a falsy
  crossed level (\<open>None\<close> or 0.0) both stop the handler.
\<close>

definition handle_ticker :: "bot \<Rightarrow> world \<Rightarrow> gateway \<Rightarrow> real \<Rightarrow> bot \<times> world" where
  "handle_ticker b w g price =
     (if price = 0 then (b, w)
      else (case check_grid_crossing b price of
              (None, b1) \<Rightarrow> (b1, w)
            | (Some crossed_level, b1) \<Rightarrow>
                if crossed_level = 0 then (b1, w)
                else execute_grid_trade b1 w g price crossed_level))"

text \<open>
  \<open>monitor_position_status\<close> with \<open>detect_position_closure\<close> inlined: the tracked
  position is closed when the exchange reports none.
\<close>

definition monitor_position_status :: "bot \<Rightarrow> world \<Rightarrow> gateway \<Rightarrow> bot \<times> world" where
  "monitor_position_status b w g =
     (case current_position b of
        None \<Rightarrow> (b, w)
      | Some pos \<Rightarrow>
          if position_resp g \<noteq> None then (b, w)
          else (case price_resp g of
                  None \<Rightarrow> (b, w)
                | Some current_price \<Rightarrow>
                    if current_price = 0 then (b, w)
                    else
                      (let calculated_pnl = calculate_exact_pnl_with_buffer (entry_price pos)
                                              current_price (pos_size pos) (pos_side pos);
                           w0 = say (if calculated_pnl > 0 then TakeProfit calculated_pnl
                                     else StopLoss calculated_pnl) w;
                           (b1, w1) = update_pnl_tracking b w0 calculated_pnl;
                           w2 = log_trade b1 w1 (side_str (pos_side pos) @ ''-CLOSED'')
                                  (or_zero (current_grid_level b1)) 0 calculated_pnl
                       in (b1\<lparr>current_position := None, current_grid_level := None,
                              current_order_id := None\<rparr>, w2))))"

text \<open>
  Construction of an instance up to \<open>load_previous_state\<close>, then the instrument
  description (\<open>None\<close> when it cannot be fetched: \<open>__init__\<close> raises ValueError).
\<close>

definition GridBot_init :: "real \<Rightarrow> real \<Rightarrow> real list \<Rightarrow> real \<Rightarrow> real \<Rightarrow> (real \<times> real) option
                              \<Rightarrow> world \<Rightarrow> (bot \<times> world) option" where
  "GridBot_init lev usdt levels sl tp instrument w =
     (let (b1, w1) = init_database (new_bot lev usdt levels sl tp) w;
          (b2, w2) = load_previous_state b1 w1
      in case instrument of
           None \<Rightarrow> None
         | Some (step, minq) \<Rightarrow> Some (b2\<lparr>qty_step := step, min_qty := minq\<rparr>, w2))"

text \<open>The part of \<open>start\<close> before the event loop: an existing position is adopted.\<close>

definition start :: "bot \<Rightarrow> world \<Rightarrow> gateway \<Rightarrow> bot \<times> world" where
  "start b w g =
     (case position_resp g of
        Some existing_pos \<Rightarrow>
          (b\<lparr>current_position := Some existing_pos\<rparr>,
           say (ExistingPosition (pos_side existing_pos) (pos_size existing_pos)) w)
      | None \<Rightarrow> (b, w))"

text \<open>
  The events of a running bot: a tick delivered to \<open>handle_ticker\<close> and the
  periodic call of \<open>monitor_position_status\<close>, each with the exchange's answers.
  A run takes the handlers one at a time, each to its end before the next begins.
  The source calls \<open>handle_ticker\<close> on the thread of the stream and
  \<open>monitor_position_status\<close> in the main loop and takes no lock, so there the two
  can overlap; \<open>run\<close> describes the executions in which they do not.
\<close>

datatype event = Tick real gateway | Poll gateway

fun step :: "bot \<times> world \<Rightarrow> event \<Rightarrow> bot \<times> world" where
  "step (b, w) (Tick price g) = handle_ticker b w g price"
| "step (b, w) (Poll g) = monitor_position_status b w g"

definition run :: "bot \<times> world \<Rightarrow> event list \<Rightarrow> bot \<times> world" where
  "run bw evs = foldl step bw evs"

text \<open>\<open>main\<close> up to the event loop: the instance is built, then started.\<close>

definition main_startup :: "real \<Rightarrow> real \<Rightarrow> real list \<Rightarrow> real \<Rightarrow> real \<Rightarrow> (real \<times> real) option
                              \<Rightarrow> world \<Rightarrow> gateway \<Rightarrow> (bot \<times> world) option" where
  "main_startup lev usdt levels sl tp instrument w g =
     (case GridBot_init lev usdt levels sl tp instrument w of
        None \<Rightarrow> None
      | Some (b, w1) \<Rightarrow> Some (start b w1 g))"

section \<open>Notions of the specification\<close>

text \<open>
  The specification's set of crossed levels: the grid levels strictly between the
  previous and the current price, the boundary in the direction of travel
  included. It is written without reference to the direction test of the code.
\<close>

definition spec_levels_between :: "real list \<Rightarrow> real \<Rightarrow> real \<Rightarrow> real set" where
  "spec_levels_between levels prev cur =
     set (filter (\<lambda>l. (prev < l \<and> l \<le> cur) \<or> (cur \<le> l \<and> l < prev)) levels)"

text \<open>The specification's invariant on the grid level and the position.\<close>

definition grid_level_iff_position :: "bot \<Rightarrow> bool" where
  "grid_level_iff_position b = ((current_grid_level b \<noteq> None) = (current_position b \<noteq> None))"

text \<open>The state row with id 1 is present in the database.\<close>

definition has_state_row :: "world \<Rightarrow> bool" where
  "has_state_row w = (map_of (bot_state w) 1 \<noteq> None)"

section \<open>Concrete inputs\<close>

text \<open>A working database file without tables' rows, no order sent, nothing printed.\<close>

definition new_world :: world where
  "new_world = \<lparr>sqlite_ok = True, bot_state = [], trades = [], orders = [], console = []\<rparr>"

text \<open>
  An instance with leverage 1, base stake 10 USDT, stop-loss and take-profit at
  1 percent ROE, quantity step and minimum quantity 0.01, for the given levels.
\<close>

definition example_bot :: "real list \<Rightarrow> bot" where
  "example_bot levels = (new_bot 1 10 levels 1 1)\<lparr>qty_step := 0.01, min_qty := 0.01\<rparr>"

text \<open>The exchange holds no position, quotes the given price and accepts orders.\<close>

definition flat_gateway :: "real \<Rightarrow> gateway" where
  "flat_gateway p = \<lparr>position_resp = None, price_resp = Some p, price_resp2 = None,
                      order_resp = OrderOk None\<rparr>"

text \<open>The exchange holds no position, quotes 11 and refuses the order.\<close>

definition refusing_gateway :: gateway where
  "refusing_gateway = \<lparr>position_resp = None, price_resp = Some 11, price_resp2 = None,
                        order_resp = OrderError ''timeout''\<rparr>"

text \<open>The exchange holds a long position of quantity 1 entered at 100 and quotes 90.\<close>

definition long_gateway :: gateway where
  "long_gateway = \<lparr>position_resp = Some \<lparr>pos_side = Buy, pos_size = 1, entry_price = 100\<rparr>,
                    price_resp = Some 90, price_resp2 = Some 90, order_resp = OrderOk None\<rparr>"

text \<open>The instance that opened that position at grid level 100, with its ledger.\<close>

definition long_bot :: bot where
  "long_bot = (example_bot [100])\<lparr>conn := True,
       current_position := Some \<lparr>pos_side = Buy, pos_size = 1, entry_price = 100\<rparr>,
       current_grid_level := Some 100\<rparr>"

definition long_world :: world where
  "long_world = new_world\<lparr>bot_state := [(1, default_row)]\<rparr>"

text \<open>An instance whose P&L state is to be persisted.\<close>

definition saved_bot :: bot where
  "saved_bot = (new_bot 1 10 [10] 1 1)\<lparr>conn := True, accumulated_losses := 10.4077,
       total_trades := 3, current_grid_level := Some 10\<rparr>"

section \<open>Evaluation\<close>

lemmas eval_defs =
  run_def handle_ticker_def check_grid_crossing_def track_def get_grid_zone_def crossed_levels_def
  execute_grid_trade_def open_grid_position_def execute_reversal_def reverse_position_def
  should_reverse_position_def caught_def say_def log_trade_def save_state_def
  update_pnl_tracking_def calculate_exact_pnl_with_buffer_def
  calculate_position_size_def calculate_position_size_with_recovery_def round_down_def
  truncate_towards_zero_def sl_tp_def opposite_def side_str_def
  monitor_position_status_def or_zero_def
  new_bot_def new_world_def init_database_def default_row_def load_previous_state_def
  GridBot_init_def start_def main_startup_def Let_def
  example_bot_def flat_gateway_def refusing_gateway_def long_gateway_def long_bot_def
  long_world_def saved_bot_def

lemma floor_1000_11: "\<lfloor>(1000::real) / 11\<rfloor> = 90"
  by (simp add: floor_eq_iff)

lemma floor_stake_90: "\<lfloor>(20407635::real) / 900000\<rfloor> = 22"
  by (simp add: floor_eq_iff)

section \<open>Zone mapping\<close>

lemma zone_loop_None: "zone_loop i ls p = None \<longleftrightarrow> (\<forall>l\<in>set ls. l < p)"
  by (induction ls arbitrary: i) auto

lemma zone_loop_Some:
  "zone_loop i ls p = Some k \<Longrightarrow>
     i \<le> k \<and> k - i < length ls \<and> p \<le> ls ! (k - i) \<and> (\<forall>j < k - i. ls ! j < p)"
proof (induction ls arbitrary: i)
  case Nil
  then show ?case by simp
next
  case (Cons a ls)
  show ?case
  proof (cases "p \<le> a")
    case True
    with Cons.prems show ?thesis by simp
  next
    case False
    with Cons.prems have rec: "zone_loop (Suc i) ls p = Some k" by simp
    from Cons.IH [OF rec]
    have ih: "Suc i \<le> k" "k - Suc i < length ls" "p \<le> ls ! (k - Suc i)"
      "\<forall>j < k - Suc i. ls ! j < p" by auto
    have eq: "k - i = Suc (k - Suc i)" using ih(1) by simp
    have "\<forall>j < k - i. (a # ls) ! j < p"
    proof (intro allI impI)
      fix j assume "j < k - i"
      then show "(a # ls) ! j < p"
        using False ih(4) eq by (cases j) auto
    qed
    then show ?thesis using ih eq by simp
  qed
qed

text \<open>
  C2. For every list of grid levels and every price, \<open>get_grid_zone\<close> returns the
  index of the first level that is at least the price, and the number of levels
  when the price is above all of them; for the levels 10, 20, 30 the prices
  5, 10, 15, 25, 35 lie in the zones 0, 0, 1, 2, 3.
\<close>

theorem zone_mapping:
  "((\<forall>l\<in>set levels. l < price) \<longrightarrow> get_grid_zone levels price = length levels)
   \<and> ((\<exists>l\<in>set levels. price \<le> l) \<longrightarrow>
        get_grid_zone levels price < length levels
        \<and> price \<le> levels ! get_grid_zone levels price
        \<and> (\<forall>j < get_grid_zone levels price. levels ! j < price))
   \<and> get_grid_zone [10, 20, 30] 5 = 0
   \<and> get_grid_zone [10, 20, 30] 10 = 0
   \<and> get_grid_zone [10, 20, 30] 15 = 1
   \<and> get_grid_zone [10, 20, 30] 25 = 2
   \<and> get_grid_zone [10, 20, 30] 35 = 3"
proof -
  have a: "(\<forall>l\<in>set levels. l < price) \<longrightarrow> get_grid_zone levels price = length levels"
    using zone_loop_None [of 0 levels price] by (auto simp: get_grid_zone_def)
  have b: "(\<exists>l\<in>set levels. price \<le> l) \<longrightarrow>
        get_grid_zone levels price < length levels
        \<and> price \<le> levels ! get_grid_zone levels price
        \<and> (\<forall>j < get_grid_zone levels price. levels ! j < price)"
  proof
    assume "\<exists>l\<in>set levels. price \<le> l"
    then have "zone_loop 0 levels price \<noteq> None"
      using zone_loop_None [of 0 levels price] by (auto simp: not_less)
    then obtain k where k: "zone_loop 0 levels price = Some k" by auto
    from zone_loop_Some [OF k] k show "get_grid_zone levels price < length levels
        \<and> price \<le> levels ! get_grid_zone levels price
        \<and> (\<forall>j < get_grid_zone levels price. levels ! j < price)"
      by (simp add: get_grid_zone_def)
  qed
  have c: "get_grid_zone [10, 20, 30] 5 = 0" "get_grid_zone [10, 20, 30] 10 = 0"
    "get_grid_zone [10, 20, 30] 15 = 1" "get_grid_zone [10, 20, 30] 25 = 2"
    "get_grid_zone [10, 20, 30] 35 = 3"
    by (simp_all add: get_grid_zone_def)
  from a b c show ?thesis by blast
qed

theorem zone_mapping_witness:
  "(\<exists>l\<in>set [10, 20, 30::real]. (15::real) \<le> l) \<and> get_grid_zone [10, 20, 30] 15 = 1
   \<and> [10, 20, 30::real] ! get_grid_zone [10, 20, 30] 15 = 20
   \<and> (10::real) < 35 \<and> (20::real) < 35 \<and> (30::real) < 35
   \<and> get_grid_zone [10, 20, 30] 35 = length [10, 20, 30::real]"
  using zone_mapping [of "[10, 20, 30]" 15] zone_mapping [of "[10, 20, 30]" 35]
  by (simp add: get_grid_zone_def)

section \<open>P&L calculation\<close>

text \<open>
  C3. The realized P&L is the raw P&L of the side minus the entry fee and the exit
  fee at 0.00055 each; a negative result is lowered by 3 percent of its absolute
  value, a result of zero or more is returned as it is. Long, entry 100, exit 110,
  size 1 gives 9.8845; long, entry 100, exit 90, size 1 gives -10.407635, which is
  within 0.0001 of -10.4077.
\<close>

theorem pnl_formula:
  "calculate_exact_pnl_with_buffer entry exit sz sd =
     (let raw = (case sd of Buy \<Rightarrow> (exit - entry) * sz | Sell \<Rightarrow> (entry - exit) * sz);
          after_fees = raw - sz * entry * 0.00055 - sz * exit * 0.00055
      in if after_fees < 0 then after_fees - 0.03 * \<bar>after_fees\<bar> else after_fees)
   \<and> calculate_exact_pnl_with_buffer 100 110 1 Buy = 9.8845
   \<and> calculate_exact_pnl_with_buffer 100 90 1 Buy = - 10.407635
   \<and> \<bar>calculate_exact_pnl_with_buffer 100 90 1 Buy - (- 10.4077)\<bar> < 0.0001"
proof -
  have g: "calculate_exact_pnl_with_buffer entry exit sz sd =
     (let raw = (case sd of Buy \<Rightarrow> (exit - entry) * sz | Sell \<Rightarrow> (entry - exit) * sz);
          after_fees = raw - sz * entry * 0.00055 - sz * exit * 0.00055
      in if after_fees < 0 then after_fees - 0.03 * \<bar>after_fees\<bar> else after_fees)"
    by (cases sd) (simp_all add: calculate_exact_pnl_with_buffer_def Let_def algebra_simps)
  have c1: "calculate_exact_pnl_with_buffer 100 110 1 Buy = 9.8845"
    by (simp add: calculate_exact_pnl_with_buffer_def Let_def)
  have c2: "calculate_exact_pnl_with_buffer 100 90 1 Buy = - 10.407635"
    by (simp add: calculate_exact_pnl_with_buffer_def Let_def)
  have c3: "\<bar>calculate_exact_pnl_with_buffer 100 90 1 Buy - (- 10.4077)\<bar> < 0.0001"
    by (simp add: c2)
  from g c1 c2 c3 show ?thesis by blast
qed

theorem pnl_formula_witness:
  "calculate_exact_pnl_with_buffer 100 90 2 Sell = 19.791"
  using pnl_formula [of 100 90 2 Sell] by (simp add: Let_def)

section \<open>Loss-recovery update\<close>

text \<open>
  C4. From a state whose accumulated losses are not negative, one update with the
  realized P&L adds the absolute value of a loss to the accumulated losses, lets a
  profit pay them down to \<open>max 0 (accumulated_losses - pnl)\<close> (printing the
  recovered amount \<open>min accumulated_losses pnl\<close> when it is positive), adds the P&L
  to the daily P&L, counts one more trade, and leaves the accumulated losses not
  negative.
\<close>

theorem loss_recovery_update:
  assumes "0 \<le> accumulated_losses b"
  shows "(pnl < 0 \<longrightarrow> accumulated_losses (fst (update_pnl_tracking b w pnl)) = accumulated_losses b + \<bar>pnl\<bar>)
   \<and> (0 \<le> pnl \<longrightarrow> accumulated_losses (fst (update_pnl_tracking b w pnl)) = max 0 (accumulated_losses b - pnl))
   \<and> (0 \<le> pnl \<and> 0 < min (accumulated_losses b) pnl \<longrightarrow>
        console (snd (update_pnl_tracking b w pnl)) ! length (console w)
          = LossRecovery (min (accumulated_losses b) pnl) (max 0 (accumulated_losses b - pnl)))
   \<and> daily_pnl (fst (update_pnl_tracking b w pnl)) = daily_pnl b + pnl
   \<and> total_trades (fst (update_pnl_tracking b w pnl)) = total_trades b + 1
   \<and> 0 \<le> accumulated_losses (fst (update_pnl_tracking b w pnl))"
  using assms
  by (auto simp: update_pnl_tracking_def Let_def save_state_def say_def nth_append)

theorem loss_recovery_update_witness:
  "0 \<le> accumulated_losses (new_bot 1 10 [10] 1 1)
   \<and> accumulated_losses (fst (update_pnl_tracking (new_bot 1 10 [10] 1 1) new_world (- 10.4077))) = 10.4077
   \<and> 0 \<le> accumulated_losses ((new_bot 1 10 [10] 1 1)\<lparr>accumulated_losses := 10.4077\<rparr>)
   \<and> accumulated_losses (fst (update_pnl_tracking ((new_bot 1 10 [10] 1 1)\<lparr>accumulated_losses := 10.4077\<rparr>) new_world 15)) = 0
   \<and> console (snd (update_pnl_tracking ((new_bot 1 10 [10] 1 1)\<lparr>accumulated_losses := 10.4077\<rparr>) new_world 15))
       ! length (console new_world) = LossRecovery 10.4077 0"
proof -
  have h1: "0 \<le> accumulated_losses (new_bot 1 10 [10] 1 1)" by (simp add: new_bot_def)
  have h2: "0 \<le> accumulated_losses ((new_bot 1 10 [10] 1 1)\<lparr>accumulated_losses := 10.4077\<rparr>)" by simp
  show ?thesis
    using loss_recovery_update [OF h1, of "- 10.4077" new_world]
          loss_recovery_update [OF h2, of 15 new_world] h1
    by (simp add: new_bot_def)
qed

text \<open>
  The accumulated losses start at zero and stay non-negative along every run of
  ticks and closure polls, so the states the update meets satisfy its hypothesis.
\<close>

lemma update_pnl_tracking_nonneg:
  "0 \<le> accumulated_losses b \<Longrightarrow> 0 \<le> accumulated_losses (fst (update_pnl_tracking b w p))"
  by (auto simp: update_pnl_tracking_def Let_def)

lemma check_grid_crossing_losses:
  "accumulated_losses (snd (check_grid_crossing b p)) = accumulated_losses b"
  by (simp add: check_grid_crossing_def Let_def track_def split: option.splits list.splits)

lemma open_grid_position_losses:
  "accumulated_losses (fst (caught (open_grid_position b w g price l))) = accumulated_losses b"
  by (auto simp: open_grid_position_def caught_def Let_def
           split: sum.splits option.splits prod.splits order_result.splits)

lemma execute_reversal_nonneg:
  assumes "0 \<le> accumulated_losses b"
  shows "0 \<le> accumulated_losses (fst (caught (execute_reversal b w g cp l)))"
proof (cases "price_resp g")
  case None
  with assms show ?thesis by (simp add: execute_reversal_def caught_def)
next
  case (Some cpr)
  show ?thesis
  proof (cases "cpr = 0")
    case True
    with Some assms show ?thesis by (simp add: execute_reversal_def caught_def)
  next
    case False
    let ?pnl = "calculate_exact_pnl_with_buffer (entry_price cp) cpr (pos_size cp) (pos_side cp)"
    obtain b1 w1 where u: "update_pnl_tracking b w ?pnl = (b1, w1)"
      by (cases "update_pnl_tracking b w ?pnl") auto
    have "0 \<le> accumulated_losses b1"
      using update_pnl_tracking_nonneg [OF assms, of w ?pnl] u by simp
    then show ?thesis using Some False u
      by (auto simp: execute_reversal_def caught_def Let_def
               split: outcome.splits order_result.splits prod.splits)
  qed
qed

lemma monitor_position_status_nonneg:
  assumes "0 \<le> accumulated_losses b"
  shows "0 \<le> accumulated_losses (fst (monitor_position_status b w g))"
proof (cases "current_position b")
  case None
  with assms show ?thesis by (simp add: monitor_position_status_def)
next
  case (Some pos)
  show ?thesis
  proof (cases "position_resp g = None \<and> price_resp g \<noteq> None \<and> price_resp g \<noteq> Some 0")
    case False
    with Some assms show ?thesis
      by (auto simp: monitor_position_status_def split: option.splits)
  next
    case True
    then obtain cpr where cpr: "price_resp g = Some cpr" "cpr \<noteq> 0" by auto
    let ?pnl = "calculate_exact_pnl_with_buffer (entry_price pos) cpr (pos_size pos) (pos_side pos)"
    let ?w0 = "say (if ?pnl > 0 then TakeProfit ?pnl else StopLoss ?pnl) w"
    obtain b1 w1 where u: "update_pnl_tracking b ?w0 ?pnl = (b1, w1)"
      by (cases "update_pnl_tracking b ?w0 ?pnl") auto
    have "0 \<le> accumulated_losses b1"
      using update_pnl_tracking_nonneg [OF assms, of ?w0 ?pnl] u by simp
    then show ?thesis using Some True cpr u
      by (simp add: monitor_position_status_def Let_def)
  qed
qed

lemma step_nonneg:
  assumes "0 \<le> accumulated_losses (fst bw)"
  shows "0 \<le> accumulated_losses (fst (step bw ev))"
proof (cases bw)
  case (Pair b w)
  show ?thesis
  proof (cases ev)
    case (Tick price g)
    obtain c b1 where c: "check_grid_crossing b price = (c, b1)"
      by (cases "check_grid_crossing b price") auto
    have b1: "0 \<le> accumulated_losses b1"
      using check_grid_crossing_losses [of b price] c assms Pair by simp
    have "0 \<le> accumulated_losses (fst (execute_grid_trade b1 w g price l))" for l
      using b1 open_grid_position_losses [of b1 w g price l] execute_reversal_nonneg [OF b1, of w g _ l]
      by (auto simp: execute_grid_trade_def caught_def split: option.splits)
    then show ?thesis using Pair Tick c b1 assms
      by (auto simp: handle_ticker_def split: option.splits)
  next
    case (Poll g)
    with Pair assms show ?thesis by (simp add: monitor_position_status_nonneg)
  qed
qed

lemma run_nonneg:
  "0 \<le> accumulated_losses b \<Longrightarrow> 0 \<le> accumulated_losses (fst (run (b, w) evs))"
proof -
  have "0 \<le> accumulated_losses (fst bw) \<Longrightarrow> 0 \<le> accumulated_losses (fst (foldl step bw evs))" for bw
    by (induction evs arbitrary: bw) (simp_all add: step_nonneg)
  from this [of "(b, w)"] show "0 \<le> accumulated_losses b \<Longrightarrow> ?thesis" by (simp add: run_def)
qed

section \<open>Crossing detection\<close>

text \<open>
  C5. With the single level 10, the first observation of a fresh instance (9, or
  11) returns nothing and only records the price and its zone; the second
  observation on the other side of the level (11, or 9) returns the level 10.
\<close>

theorem single_level_crossing:
  "fst (check_grid_crossing (new_bot lev usdt [10] sl tp) 9) = None
   \<and> snd (check_grid_crossing (new_bot lev usdt [10] sl tp) 9)
       = (new_bot lev usdt [10] sl tp)\<lparr>last_price := Some 9, last_grid_zone := Some 0\<rparr>
   \<and> fst (check_grid_crossing (snd (check_grid_crossing (new_bot lev usdt [10] sl tp) 9)) 11) = Some 10
   \<and> fst (check_grid_crossing (new_bot lev usdt [10] sl tp) 11) = None
   \<and> snd (check_grid_crossing (new_bot lev usdt [10] sl tp) 11)
       = (new_bot lev usdt [10] sl tp)\<lparr>last_price := Some 11, last_grid_zone := Some 1\<rparr>
   \<and> fst (check_grid_crossing (snd (check_grid_crossing (new_bot lev usdt [10] sl tp) 11)) 9) = Some 10"
  by (simp add: check_grid_crossing_def new_bot_def track_def get_grid_zone_def crossed_levels_def)

theorem single_level_crossing_witness:
  "fst (check_grid_crossing (snd (check_grid_crossing (new_bot 1 10 [10] 1 1) 9)) 11) = Some 10
   \<and> fst (check_grid_crossing (snd (check_grid_crossing (new_bot 1 10 [10] 1 1) 11)) 9) = Some 10"
  using single_level_crossing [of 1 10 1 1] by blast

text \<open>
  C10. With the levels 10 and 20, an observation of 10 followed by one of 15
  changes the zone from 0 to 1 and returns no crossing; the price and the zone
  are recorded all the same.
\<close>

theorem zone_change_without_crossing:
  "get_grid_zone [10, 20] 10 = 0 \<and> get_grid_zone [10, 20] 15 = 1
   \<and> last_price (snd (check_grid_crossing (new_bot lev usdt [10, 20] sl tp) 10)) = Some 10
   \<and> last_grid_zone (snd (check_grid_crossing (new_bot lev usdt [10, 20] sl tp) 10)) = Some 0
   \<and> fst (check_grid_crossing (snd (check_grid_crossing (new_bot lev usdt [10, 20] sl tp) 10)) 15) = None
   \<and> last_price (snd (check_grid_crossing (snd (check_grid_crossing (new_bot lev usdt [10, 20] sl tp) 10)) 15)) = Some 15
   \<and> last_grid_zone (snd (check_grid_crossing (snd (check_grid_crossing (new_bot lev usdt [10, 20] sl tp) 10)) 15)) = Some 1"
  by (simp add: check_grid_crossing_def new_bot_def track_def get_grid_zone_def crossed_levels_def)

theorem zone_change_without_crossing_witness:
  "fst (check_grid_crossing (snd (check_grid_crossing (new_bot 1 10 [10, 20] 1 1) 10)) 15) = None
   \<and> last_grid_zone (snd (check_grid_crossing (snd (check_grid_crossing (new_bot 1 10 [10, 20] 1 1) 10)) 15)) = Some 1"
  using zone_change_without_crossing [of 1 10 1 1] by blast

section \<open>Selection among several crossed levels\<close>

lemma zone_loop_shift: "zone_loop i ls p = map_option (\<lambda>k. k + i) (zone_loop 0 ls p)"
proof (induction ls arbitrary: i)
  case Nil
  show ?case by simp
next
  case (Cons a ls)
  have "zone_loop (Suc i) ls p = map_option (\<lambda>k. k + Suc i) (zone_loop 0 ls p)"
    by (rule Cons.IH)
  moreover have "zone_loop (Suc 0) ls p = map_option (\<lambda>k. k + Suc 0) (zone_loop 0 ls p)"
    by (rule Cons.IH)
  ultimately show ?case by (simp add: option.map_comp comp_def)
qed

lemma get_grid_zone_takeWhile:
  "get_grid_zone levels p = length (takeWhile (\<lambda>l. l < p) levels)"
proof (induction levels)
  case Nil
  show ?case by (simp add: get_grid_zone_def)
next
  case (Cons a ls)
  show ?case
  proof (cases "p \<le> a")
    case True
    then show ?thesis by (simp add: get_grid_zone_def)
  next
    case False
    have "zone_loop (Suc 0) ls p = map_option (\<lambda>k. k + Suc 0) (zone_loop 0 ls p)"
      by (rule zone_loop_shift)
    with False Cons.IH show ?thesis
      by (cases "zone_loop 0 ls p") (simp_all add: get_grid_zone_def)
  qed
qed

lemma takeWhile_sorted_filter:
  "sorted ls \<Longrightarrow> takeWhile (\<lambda>l. l < (p::real)) ls = filter (\<lambda>l. l < p) ls"
proof (induction ls)
  case Nil
  show ?case by simp
next
  case (Cons a ls)
  show ?case
  proof (cases "a < p")
    case True
    with Cons show ?thesis by simp
  next
    case False
    with Cons.prems have "\<forall>x\<in>set ls. \<not> x < p" by auto
    then have "filter (\<lambda>l. l < p) ls = []" by (simp add: filter_empty_conv)
    with False show ?thesis by simp
  qed
qed

lemma get_grid_zone_sorted:
  "sorted levels \<Longrightarrow> get_grid_zone levels p = length (filter (\<lambda>l. l < p) levels)"
  by (simp add: get_grid_zone_takeWhile takeWhile_sorted_filter)

lemma length_filter_strict:
  "(\<And>x. P x \<Longrightarrow> Q x) \<Longrightarrow> x \<in> set xs \<Longrightarrow> Q x \<Longrightarrow> \<not> P x
     \<Longrightarrow> length (filter P xs) < length (filter Q xs)"
proof (induction xs)
  case Nil
  then show ?case by simp
next
  case (Cons a xs)
  have le: "length (filter P xs) \<le> length (filter Q xs)"
  proof (induction xs)
    case Nil
    show ?case by simp
  next
    case (Cons y ys)
    then show ?case using \<open>\<And>x. P x \<Longrightarrow> Q x\<close> by auto
  qed
  show ?case
  proof (cases "x = a")
    case True
    with Cons.prems le show ?thesis by simp
  next
    case False
    with Cons.prems have "x \<in> set xs" by simp
    from Cons.IH [OF Cons.prems(1) this Cons.prems(3) Cons.prems(4)]
    show ?thesis using Cons.prems(1) by auto
  qed
qed

lemma zone_changes:
  assumes "sorted levels" and "l \<in> set levels" and "a \<le> l" and "l < c"
  shows "get_grid_zone levels a < get_grid_zone levels c"
proof -
  have "length (filter (\<lambda>x. x < a) levels) < length (filter (\<lambda>x. x < c) levels)"
  proof (rule length_filter_strict [where x = l])
    fix x assume "x < a" then show "x < c" using assms(3,4) by linarith
  next
    show "l \<in> set levels" by (rule assms(2))
    show "l < c" by (rule assms(4))
    show "\<not> l < a" using assms(3) by simp
  qed
  then show ?thesis using assms(1) by (simp add: get_grid_zone_sorted)
qed

lemma crossed_levels_set:
  "set (crossed_levels levels prev cur) = spec_levels_between levels prev cur"
  by (auto simp: crossed_levels_def spec_levels_between_def)

lemma hd_sorted_Min:
  "sorted (xs::real list) \<Longrightarrow> xs \<noteq> [] \<Longrightarrow> hd xs = Min (set xs)"
  by (cases xs) (auto intro!: Min_eqI [symmetric])

lemma crossed_levels_sorted: "sorted levels \<Longrightarrow> sorted (crossed_levels levels prev cur)"
  by (simp add: crossed_levels_def sorted_wrt_filter)

text \<open>
  Every observation leaves the price and its zone behind, so after an observation
  of a price other than zero the tracker is in the state the next theorem asks for.
\<close>

lemma tracker_after_observation:
  "last_price (snd (check_grid_crossing b p)) = Some p
   \<and> last_grid_zone (snd (check_grid_crossing b p)) = Some (get_grid_zone (grid_levels b) p)
   \<and> grid_levels (snd (check_grid_crossing b p)) = grid_levels b"
  by (simp add: check_grid_crossing_def Let_def track_def split: option.splits list.splits)

lemma new_bot_sorted: "sorted (grid_levels (new_bot lev usdt levels sl tp))"
  by (simp add: new_bot_def)

text \<open>
  C6. When the levels are sorted, the tracker holds a previous price other than
  zero with its zone, and more than one grid level lies between the previous and
  the current price, the observation returns the lowest of these levels, whether
  the price went up or down.
\<close>

theorem lowest_crossed_level:
  assumes srt: "sorted (grid_levels b)"
    and lp: "last_price b = Some prev" and nz: "prev \<noteq> 0"
    and lz: "last_grid_zone b = Some (get_grid_zone (grid_levels b) prev)"
    and many: "1 < card (spec_levels_between (grid_levels b) prev cur)"
  shows "fst (check_grid_crossing b cur) = Some (Min (spec_levels_between (grid_levels b) prev cur))"
proof -
  let ?S = "spec_levels_between (grid_levels b) prev cur"
  let ?cs = "crossed_levels (grid_levels b) prev cur"
  have fin: "finite ?S" by (simp add: spec_levels_between_def)
  have "\<not> card ?S \<le> Suc 0" using many by simp
  then have "\<not> (\<forall>x\<in>?S. \<forall>y\<in>?S. x = y)"
    using card_le_Suc0_iff_eq [OF fin] by simp
  then obtain l1 l2 where l1: "l1 \<in> ?S" and l2: "l2 \<in> ?S" "l2 \<noteq> l1" by blast
  have mem: "\<And>l. l \<in> ?S \<Longrightarrow> l \<in> set (grid_levels b) \<and> ((prev < l \<and> l \<le> cur) \<or> (cur \<le> l \<and> l < prev))"
    by (simp add: spec_levels_between_def)
  have zone_ne: "get_grid_zone (grid_levels b) cur \<noteq> get_grid_zone (grid_levels b) prev"
  proof (cases "prev < cur")
    case True
    define l where "l = min l1 l2"
    have "l \<in> ?S" using l1 l2 by (simp add: l_def min_def)
    moreover have "l < cur" using mem [OF l1] mem [OF l2(1)] l2(2) True by (auto simp: l_def min_def)
    ultimately have "get_grid_zone (grid_levels b) prev < get_grid_zone (grid_levels b) cur"
      using zone_changes [OF srt, of l prev cur] mem [of l] True by auto
    then show ?thesis by simp
  next
    case False
    have "get_grid_zone (grid_levels b) cur < get_grid_zone (grid_levels b) prev"
      using zone_changes [OF srt, of l1 cur prev] mem [OF l1] False by auto
    then show ?thesis by simp
  qed
  have ne: "?cs \<noteq> []" using l1 crossed_levels_set [of "grid_levels b" prev cur] by auto
  then obtain level rest where cs: "?cs = level # rest" by (cases ?cs) auto
  have "level = hd ?cs" by (simp add: cs)
  also have "\<dots> = Min (set ?cs)" by (rule hd_sorted_Min [OF crossed_levels_sorted [OF srt] ne])
  finally have lv: "level = Min ?S" by (simp add: crossed_levels_set)
  show ?thesis using lp nz lz zone_ne cs lv
    by (simp add: check_grid_crossing_def Let_def)
qed

theorem lowest_crossed_level_witness:
  "sorted (grid_levels ((new_bot 1 10 [30, 10, 20] 1 1)\<lparr>last_price := Some 35, last_grid_zone := Some 3\<rparr>))
   \<and> get_grid_zone [10, 20, 30] 35 = 3
   \<and> 1 < card (spec_levels_between [10, 20, 30] 35 5)
   \<and> Min (spec_levels_between [10, 20, 30] 35 5) = 10
   \<and> fst (check_grid_crossing ((new_bot 1 10 [30, 10, 20] 1 1)\<lparr>last_price := Some 35, last_grid_zone := Some 3\<rparr>) 5)
       = Some 10"
proof -
  let ?b = "(new_bot 1 10 [30, 10, 20] 1 1)\<lparr>last_price := Some 35, last_grid_zone := Some 3\<rparr>"
  have g: "grid_levels ?b = [10, 20, 30]" by (simp add: new_bot_def)
  have s: "sorted (grid_levels ?b)" by (simp add: g)
  have z: "get_grid_zone [10, 20, 30] 35 = 3" by (simp add: get_grid_zone_def)
  have S: "spec_levels_between [10, 20, 30] 35 5 = {10, 20, 30}"
    by (simp add: spec_levels_between_def)
  have c: "1 < card (spec_levels_between [10, 20, 30] 35 5)" by (simp add: S)
  have m: "Min (spec_levels_between [10, 20, 30] 35 5) = 10" by (simp add: S)
  have "fst (check_grid_crossing ?b 5) = Some (Min (spec_levels_between (grid_levels ?b) 35 5))"
  proof (rule lowest_crossed_level [of ?b 35 5])
    show "sorted (grid_levels ?b)" by (rule s)
    show "last_price ?b = Some 35" by simp
    show "(35::real) \<noteq> 0" by simp
    show "last_grid_zone ?b = Some (get_grid_zone (grid_levels ?b) 35)" unfolding g z by simp
    show "1 < card (spec_levels_between (grid_levels ?b) 35 5)" unfolding g by (rule c)
  qed
  then have "fst (check_grid_crossing ?b 5) = Some 10" unfolding g m .
  then show ?thesis using s z c m by blast
qed

section \<open>Order failure when opening\<close>

lemma open_grid_position_error:
  assumes "order_resp g = OrderError e"
  shows "\<exists>m. caught (open_grid_position b w g price grid_level)
              = (b, say m (w\<lparr>orders := orders (snd (caught (open_grid_position b w g price grid_level)))\<rparr>))
           \<and> is_failure m
           \<and> (orders (snd (caught (open_grid_position b w g price grid_level))) \<noteq> orders w \<longrightarrow> m = OrderFailed e)"
  using assms
  by (auto simp: open_grid_position_def caught_def Let_def say_def is_failure_def
           split: sum.splits option.splits prod.splits)

text \<open>
  C7. When the exchange reports no position and the order placement returns an
  error, processing a crossing leaves the instance as it was (position, grid
  level, accumulated losses, daily P&L and trade count among its fields), appends
  no trade record, leaves the state row alone, and prints exactly one failure
  line, which is the order's error whenever an order was handed to the exchange.
\<close>

theorem open_order_failure_keeps_state:
  assumes "position_resp g = None" and "order_resp g = OrderError e"
  shows "fst (execute_grid_trade b w g price grid_level) = b
   \<and> current_position (fst (execute_grid_trade b w g price grid_level)) = current_position b
   \<and> current_grid_level (fst (execute_grid_trade b w g price grid_level)) = current_grid_level b
   \<and> accumulated_losses (fst (execute_grid_trade b w g price grid_level)) = accumulated_losses b
   \<and> daily_pnl (fst (execute_grid_trade b w g price grid_level)) = daily_pnl b
   \<and> total_trades (fst (execute_grid_trade b w g price grid_level)) = total_trades b
   \<and> trades (snd (execute_grid_trade b w g price grid_level)) = trades w
   \<and> bot_state (snd (execute_grid_trade b w g price grid_level)) = bot_state w
   \<and> (\<exists>m. console (snd (execute_grid_trade b w g price grid_level)) = console w @ [m]
          \<and> is_failure m
          \<and> (orders (snd (execute_grid_trade b w g price grid_level)) \<noteq> orders w \<longrightarrow> m = OrderFailed e))"
proof -
  have eq: "execute_grid_trade b w g price grid_level = caught (open_grid_position b w g price grid_level)"
    using assms(1) by (simp add: execute_grid_trade_def)
  from open_grid_position_error [OF assms(2), of b w price grid_level]
  obtain m where m: "caught (open_grid_position b w g price grid_level)
              = (b, say m (w\<lparr>orders := orders (snd (caught (open_grid_position b w g price grid_level)))\<rparr>))"
           "is_failure m"
           "orders (snd (caught (open_grid_position b w g price grid_level))) \<noteq> orders w \<longrightarrow> m = OrderFailed e"
    by blast
  have f: "fst (execute_grid_trade b w g price grid_level) = b"
    unfolding eq by (subst m(1)) simp
  have t: "trades (snd (execute_grid_trade b w g price grid_level)) = trades w"
    unfolding eq by (subst m(1)) (simp add: say_def)
  have s: "bot_state (snd (execute_grid_trade b w g price grid_level)) = bot_state w"
    unfolding eq by (subst m(1)) (simp add: say_def)
  have c: "console (snd (execute_grid_trade b w g price grid_level)) = console w @ [m]"
    unfolding eq by (subst m(1)) (simp add: say_def)
  from f t s c m(2,3) show ?thesis unfolding eq by auto
qed

theorem open_order_failure_keeps_state_witness:
  "position_resp refusing_gateway = None
   \<and> order_resp refusing_gateway = OrderError ''timeout''
   \<and> fst (execute_grid_trade (example_bot [10]) new_world refusing_gateway 11 10) = example_bot [10]
   \<and> trades (snd (execute_grid_trade (example_bot [10]) new_world refusing_gateway 11 10)) = []
   \<and> map order_qty (orders (snd (execute_grid_trade (example_bot [10]) new_world refusing_gateway 11 10)))
       = [0.9]
   \<and> console (snd (execute_grid_trade (example_bot [10]) new_world refusing_gateway 11 10))
       = [OrderFailed ''timeout'']"
proof -
  have h1: "position_resp refusing_gateway = None" by (simp add: refusing_gateway_def)
  have h2: "order_resp refusing_gateway = OrderError ''timeout''" by (simp add: refusing_gateway_def)
  have q: "map order_qty (orders (snd (execute_grid_trade (example_bot [10]) new_world refusing_gateway 11 10)))
             = [0.9]"
    by (simp add: eval_defs floor_1000_11)
  have w0: "trades new_world = []" "console new_world = []" "orders new_world = []"
    by (simp_all add: new_world_def)
  from open_order_failure_keeps_state [OF h1 h2, of "example_bot [10]" new_world 11 10] q h1 h2
  show ?thesis by (auto simp: w0)
qed

section \<open>Restart round trip\<close>

lemma map_of_update_row:
  "map_of (map (\<lambda>(i, r). if i = (1::int) then (i, r') else (i, r)) tbl) 1
     = (case map_of tbl 1 of None \<Rightarrow> None | Some r \<Rightarrow> Some r')"
  by (induction tbl) auto

lemma or_zero_Some: "or_zero (Some x) = x"
  by (simp add: or_zero_def)

lemma init_database_has_state_row:
  "sqlite_ok w \<Longrightarrow> bot_state w = [] \<or> has_state_row w
     \<Longrightarrow> has_state_row (snd (init_database b w)) \<and> conn (fst (init_database b w))"
  by (auto simp: init_database_def has_state_row_def)

lemma save_state_has_state_row:
  "has_state_row w \<Longrightarrow> has_state_row (save_state b w)"
  by (auto simp: save_state_def has_state_row_def say_def map_of_update_row)

text \<open>
  C8. With an open connection to a working database that holds the state row,
  \<open>save_state\<close> followed by the construction of a fresh instance, which runs
  \<open>load_previous_state\<close>, gives an instance with the same accumulated losses,
  trade count and grid level (and daily P&L) as the one that was saved.
\<close>

theorem restart_round_trip:
  assumes "conn b" and "sqlite_ok w" and "has_state_row w"
  shows "\<exists>b' w'. GridBot_init lev usdt levels sl tp (Some (qstep, minq)) (save_state b w) = Some (b', w')
     \<and> accumulated_losses b' = accumulated_losses b
     \<and> total_trades b' = total_trades b
     \<and> current_grid_level b' = current_grid_level b
     \<and> daily_pnl b' = daily_pnl b"
proof -
  let ?row = "\<lparr>col_accumulated_losses = Some (accumulated_losses b),
                col_daily_pnl = Some (daily_pnl b),
                col_total_trades = Some (total_trades b),
                col_current_grid_level = current_grid_level b\<rparr>"
  let ?w1 = "save_state b w"
  have ok: "sqlite_ok ?w1" using assms by (simp add: save_state_def)
  have ne: "bot_state ?w1 \<noteq> []" using assms by (auto simp: save_state_def has_state_row_def)
  have row: "map_of (bot_state ?w1) 1 = Some ?row"
    using assms by (auto simp: save_state_def has_state_row_def map_of_update_row)
  have init: "init_database (new_bot lev usdt levels sl tp) ?w1
                = ((new_bot lev usdt levels sl tp)\<lparr>conn := True\<rparr>, ?w1)"
    using ok ne by (simp add: init_database_def)
  obtain b2 w2 where l: "load_previous_state ((new_bot lev usdt levels sl tp)\<lparr>conn := True\<rparr>) ?w1 = (b2, w2)"
    by (cases "load_previous_state ((new_bot lev usdt levels sl tp)\<lparr>conn := True\<rparr>) ?w1") auto
  have b2: "b2 = (new_bot lev usdt levels sl tp)\<lparr>conn := True,
               accumulated_losses := accumulated_losses b, daily_pnl := daily_pnl b,
               total_trades := total_trades b, current_grid_level := current_grid_level b\<rparr>"
    using l ok row by (simp add: load_previous_state_def Let_def or_zero_Some split: if_splits)
  have "GridBot_init lev usdt levels sl tp (Some (qstep, minq)) ?w1
          = Some (b2\<lparr>qty_step := qstep, min_qty := minq\<rparr>, w2)"
    by (simp add: GridBot_init_def init l)
  then show ?thesis by (simp add: b2)
qed

theorem restart_round_trip_witness:
  "conn saved_bot
   \<and> sqlite_ok (snd (init_database (new_bot 1 10 [10] 1 1) new_world))
   \<and> has_state_row (snd (init_database (new_bot 1 10 [10] 1 1) new_world))
   \<and> GridBot_init 1 10 [10] 1 1 (Some (0.01, 0.01))
        (save_state saved_bot (snd (init_database (new_bot 1 10 [10] 1 1) new_world))) \<noteq> None
   \<and> accumulated_losses (fst (the (GridBot_init 1 10 [10] 1 1 (Some (0.01, 0.01))
        (save_state saved_bot (snd (init_database (new_bot 1 10 [10] 1 1) new_world)))))) = 10.4077
   \<and> total_trades (fst (the (GridBot_init 1 10 [10] 1 1 (Some (0.01, 0.01))
        (save_state saved_bot (snd (init_database (new_bot 1 10 [10] 1 1) new_world)))))) = 3
   \<and> current_grid_level (fst (the (GridBot_init 1 10 [10] 1 1 (Some (0.01, 0.01))
        (save_state saved_bot (snd (init_database (new_bot 1 10 [10] 1 1) new_world)))))) = Some 10"
proof -
  let ?w = "snd (init_database (new_bot 1 10 [10] 1 1) new_world)"
  have h1: "conn saved_bot" by (simp add: saved_bot_def)
  have h2: "sqlite_ok ?w" by (simp add: init_database_def new_world_def)
  have h3: "has_state_row ?w" by (simp add: init_database_def new_world_def has_state_row_def)
  from restart_round_trip [OF h1 h2 h3, of 1 10 "[10]" 1 1 "0.01" "0.01"]
  obtain b' w' where r: "GridBot_init 1 10 [10] 1 1 (Some (0.01, 0.01)) (save_state saved_bot ?w) = Some (b', w')"
    "accumulated_losses b' = accumulated_losses saved_bot" "total_trades b' = total_trades saved_bot"
    "current_grid_level b' = current_grid_level saved_bot"
    by blast
  have v: "accumulated_losses saved_bot = 10.4077" "total_trades saved_bot = 3"
    "current_grid_level saved_bot = Some 10"
    by (simp_all add: saved_bot_def)
  show ?thesis unfolding r(1) using r(2,3,4) v h1 h2 h3 by simp
qed

section \<open>Grid level and position\<close>

text \<open>
  C9, as stated, fails right after startup: on a first start with an empty ledger
  while the exchange already holds a position, \<open>start\<close> adopts the position and
  the grid level stays \<open>None\<close>.
\<close>

theorem startup_breaks_grid_level_iff_position:
  "main_startup 1 10 [10] 1 1 (Some (0.01, 0.01)) new_world long_gateway \<noteq> None
   \<and> current_position (fst (the (main_startup 1 10 [10] 1 1 (Some (0.01, 0.01)) new_world long_gateway)))
       = Some \<lparr>pos_side = Buy, pos_size = 1, entry_price = 100\<rparr>
   \<and> current_grid_level (fst (the (main_startup 1 10 [10] 1 1 (Some (0.01, 0.01)) new_world long_gateway)))
       = None
   \<and> \<not> grid_level_iff_position
        (fst (the (main_startup 1 10 [10] 1 1 (Some (0.01, 0.01)) new_world long_gateway)))"
  by (simp add: eval_defs grid_level_iff_position_def)

text \<open>
  The other direction: a position is opened at level 10 and closed by the exchange;
  the poll saves the state before it clears the grid level, so the next start
  reads level 10 from the ledger while no position exists.
\<close>

lemma stale_grid_level_after_restart:
  "map_option (\<lambda>(b, w). (current_position b, current_grid_level b))
     (main_startup 1 10 [10] 1 1 (Some (0.01, 0.01))
        (snd (run (fst (init_database (example_bot [10]) new_world),
                   snd (init_database (example_bot [10]) new_world))
          [Tick 9 (flat_gateway 9), Tick 11 (flat_gateway 11), Poll (flat_gateway 12)]))
        (flat_gateway 12))
   = Some (None, Some 10)"
  by (simp add: eval_defs floor_1000_11)

lemma update_pnl_tracking_fields:
  "current_position (fst (update_pnl_tracking b w p)) = current_position b
   \<and> current_grid_level (fst (update_pnl_tracking b w p)) = current_grid_level b"
  by (simp add: update_pnl_tracking_def Let_def split: prod.splits)

lemma check_grid_crossing_fields:
  "current_position (snd (check_grid_crossing b p)) = current_position b
   \<and> current_grid_level (snd (check_grid_crossing b p)) = current_grid_level b"
  by (simp add: check_grid_crossing_def Let_def track_def split: option.splits list.splits)

lemma open_grid_position_inv:
  "grid_level_iff_position b \<Longrightarrow> grid_level_iff_position (fst (caught (open_grid_position b w g price l)))"
  by (auto simp: open_grid_position_def caught_def Let_def grid_level_iff_position_def
           split: sum.splits option.splits prod.splits order_result.splits)

lemma execute_reversal_inv:
  assumes "grid_level_iff_position b" and "current_grid_level b \<noteq> None"
  shows "grid_level_iff_position (fst (caught (execute_reversal b w g cp l)))"
proof (cases "price_resp g")
  case None
  with assms show ?thesis by (simp add: execute_reversal_def caught_def)
next
  case (Some cpr)
  show ?thesis
  proof (cases "cpr = 0")
    case True
    with Some assms show ?thesis by (simp add: execute_reversal_def caught_def)
  next
    case False
    let ?pnl = "calculate_exact_pnl_with_buffer (entry_price cp) cpr (pos_size cp) (pos_side cp)"
    obtain b1 w1 where u: "update_pnl_tracking b w ?pnl = (b1, w1)"
      by (cases "update_pnl_tracking b w ?pnl") auto
    have f: "current_position b1 = current_position b" "current_grid_level b1 = current_grid_level b"
      using update_pnl_tracking_fields [of b w ?pnl] u by simp_all
    have inv1: "grid_level_iff_position b1" using assms f by (simp add: grid_level_iff_position_def)
    show ?thesis using Some False u inv1 f assms(2)
      by (auto simp: execute_reversal_def caught_def Let_def grid_level_iff_position_def
               split: outcome.splits order_result.splits prod.splits)
  qed
qed

lemma execute_grid_trade_inv:
  assumes "grid_level_iff_position b"
  shows "grid_level_iff_position (fst (execute_grid_trade b w g price l))"
proof (cases "position_resp g")
  case None
  then show ?thesis using open_grid_position_inv [OF assms] by (simp add: execute_grid_trade_def)
next
  case (Some cp)
  show ?thesis
  proof (cases "should_reverse_position b l")
    case True
    then have "current_grid_level b = Some l" by (simp add: should_reverse_position_def)
    then have "current_grid_level b \<noteq> None" by simp
    from execute_reversal_inv [OF assms this] Some True show ?thesis
      by (simp add: execute_grid_trade_def)
  next
    case False
    with Some assms show ?thesis by (simp add: execute_grid_trade_def caught_def)
  qed
qed

lemma handle_ticker_inv:
  assumes "grid_level_iff_position b"
  shows "grid_level_iff_position (fst (handle_ticker b w g price))"
proof -
  obtain c b1 where c: "check_grid_crossing b price = (c, b1)"
    by (cases "check_grid_crossing b price") auto
  have "grid_level_iff_position b1"
    using check_grid_crossing_fields [of b price] c assms by (simp add: grid_level_iff_position_def)
  then show ?thesis using assms c execute_grid_trade_inv [of b1]
    by (auto simp: handle_ticker_def split: option.splits)
qed

lemma monitor_position_status_inv:
  assumes "grid_level_iff_position b"
  shows "grid_level_iff_position (fst (monitor_position_status b w g))"
  using assms
  by (auto simp: monitor_position_status_def Let_def grid_level_iff_position_def
           split: option.splits prod.splits)

lemma step_inv:
  "grid_level_iff_position (fst bw) \<Longrightarrow> grid_level_iff_position (fst (step bw ev))"
  by (cases bw; cases ev) (simp_all add: handle_ticker_inv monitor_position_status_inv)

text \<open>
  The invariant also needs the handlers to run one at a time. A poll that runs
  while \<open>execute_reversal\<close> waits for the exchange clears the position and the grid
  level; the reversal then goes on and sets the position alone. The first lemma
  ties \<open>reversal_completion\<close> to \<open>execute_reversal\<close>, the second evaluates the
  overlap from a state that satisfies the invariant.
\<close>

lemma execute_reversal_completion:
  assumes "price_resp g = Some current_price" and "current_price \<noteq> 0"
    and "update_pnl_tracking b w (calculate_exact_pnl_with_buffer (entry_price current_pos)
           current_price (pos_size current_pos) (pos_side current_pos)) = (b1, w1)"
    and "reverse_position w1 g (pos_size current_pos) (pos_side current_pos)
           (sl_roe b1) (tp_roe b1) (leverage b1) = Returned (result, w2)"
  shows "execute_reversal b w g current_pos grid_level
           = Returned (reversal_completion b1 w2 result current_pos current_price grid_level
                (calculate_position_size_with_recovery b1)
                (calculate_exact_pnl_with_buffer (entry_price current_pos)
                   current_price (pos_size current_pos) (pos_side current_pos)))"
  using assms
  by (cases result) (simp_all add: execute_reversal_def reversal_completion_def Let_def)

lemma overlapping_poll_breaks_invariant:
  "grid_level_iff_position long_bot
   \<and> (let pnl = calculate_exact_pnl_with_buffer 100 90 1 Buy;
           after_update = update_pnl_tracking long_bot long_world pnl;
           after_poll = monitor_position_status (fst after_update) (snd after_update) (flat_gateway 90);
           b' = fst (reversal_completion (fst after_poll) (snd after_poll) (OrderOk None)
                  \<lparr>pos_side = Buy, pos_size = 1, entry_price = 100\<rparr> 90 100
                  (calculate_position_size_with_recovery (fst after_update)) pnl)
       in current_position b' = Some \<lparr>pos_side = Sell, pos_size = 2, entry_price = 90\<rparr>
          \<and> current_grid_level b' = None
          \<and> \<not> grid_level_iff_position b')"
  by (simp add: eval_defs reversal_completion_def grid_level_iff_position_def)

text \<open>
  C9, amended. A freshly constructed instance without a ledger satisfies the
  invariant, and when the handlers run one at a time, each tick and each closure
  poll to its end before the next begins (a \<open>run\<close>), every sequence of ticks and
  closure polls leads from a state in which the grid level is set exactly when
  the position is set to another such state. Nothing is said of the state right
  after startup recovery, nor of executions in which a poll overlaps a tick.
\<close>

theorem grid_level_iff_position_run:
  "grid_level_iff_position (new_bot lev usdt levels sl tp)
   \<and> (grid_level_iff_position b \<longrightarrow> grid_level_iff_position (fst (run (b, w) evs)))"
proof
  show "grid_level_iff_position (new_bot lev usdt levels sl tp)"
    by (simp add: grid_level_iff_position_def new_bot_def)
  have "grid_level_iff_position (fst bw) \<Longrightarrow> grid_level_iff_position (fst (foldl step bw evs))" for bw
    by (induction evs arbitrary: bw) (simp_all add: step_inv)
  from this [of "(b, w)"]
  show "grid_level_iff_position b \<longrightarrow> grid_level_iff_position (fst (run (b, w) evs))"
    by (simp add: run_def)
qed

theorem grid_level_iff_position_run_witness:
  "grid_level_iff_position (example_bot [10])
   \<and> grid_level_iff_position
        (fst (run (example_bot [10], new_world) [Tick 9 (flat_gateway 9), Tick 11 (flat_gateway 11)]))
   \<and> current_grid_level
        (fst (run (example_bot [10], new_world) [Tick 9 (flat_gateway 9), Tick 11 (flat_gateway 11)]))
       = Some 10"
proof -
  have h: "grid_level_iff_position (example_bot [10])"
    by (simp add: grid_level_iff_position_def example_bot_def new_bot_def)
  have c: "current_grid_level
        (fst (run (example_bot [10], new_world) [Tick 9 (flat_gateway 9), Tick 11 (flat_gateway 11)]))
       = Some 10"
    by (simp add: eval_defs floor_1000_11)
  from grid_level_iff_position_run [of 1 10 "[10]" 1 1 "example_bot [10]" new_world
         "[Tick 9 (flat_gateway 9), Tick 11 (flat_gateway 11)]"] h c
  show ?thesis by blast
qed

section \<open>Reversal\<close>

text \<open>
  The order of a reversal that reaches the exchange is for twice the quantity of
  the position, on the opposite side; neither the base stake nor the accumulated
  losses enter it.
\<close>

lemma reverse_position_order:
  "reverse_position w g q sd sl tp lev = Returned (OrderOk oid, w')
     \<Longrightarrow> orders w' = orders w @ [\<lparr>order_side = opposite sd, order_qty = q * 2,
            order_stop_loss = fst (sl_tp (opposite sd) (the (price_resp2 g)) sl tp lev),
            order_take_profit = snd (sl_tp (opposite sd) (the (price_resp2 g)) sl tp lev)\<rparr>]"
  by (auto simp: reverse_position_def Let_def split: option.splits if_splits prod.splits)

text \<open>
  C1, evaluated on the code. A long position of quantity 1 entered at 100 is
  reversed at price 90 with base stake 10 and leverage 1: the new stake is
  10 + 10.407635 = 20.407635 USDT, to which the quantity 0.22 corresponds, and the
  ledger records that stake; the order sent is a sale of quantity 2, not of
  1 + 0.22, and the instance records a short position of quantity 2.
\<close>

theorem reversal_order_ignores_new_stake:
  "calculate_position_size_with_recovery (fst (execute_grid_trade long_bot long_world long_gateway 90 100))
     = 20.407635
   \<and> calculate_position_size (fst (execute_grid_trade long_bot long_world long_gateway 90 100))
        (Some 90) 20.407635 = Inr (Some 0.22)
   \<and> map order_side (orders (snd (execute_grid_trade long_bot long_world long_gateway 90 100))) = [Sell]
   \<and> map order_qty (orders (snd (execute_grid_trade long_bot long_world long_gateway 90 100))) = [2]
   \<and> (2::real) \<noteq> 1 + 0.22
   \<and> current_position (fst (execute_grid_trade long_bot long_world long_gateway 90 100))
       = Some \<lparr>pos_side = Sell, pos_size = 2, entry_price = 90\<rparr>
   \<and> map trade_usdt_amount (trades (snd (execute_grid_trade long_bot long_world long_gateway 90 100)))
       = [20.407635]"
  by (simp add: eval_defs floor_stake_90)

end
